theory Spec2Isabelle
  imports Main
begin

section \<open>Data model (src/src/layer.ts, src/src/env.ts)\<close>

text \<open>
  The plugin works on the host tool's in-memory configuration tree: JavaScript objects
  that are shared by reference and mutated in place. The embedding keeps that sharing
  explicit. A function definition and a layer array are each held in a store and named
  by a reference; a handler record holds the reference of its function definition, as
  \<^verbatim>\<open>HandlerInfo.handler\<close> does in the source.
\<close>

type_synonym ref = nat

text \<open>\<^verbatim>\<open>enum RuntimeType\<close> of layer.ts.\<close>

datatype RuntimeType = NODE | NODE_TS | NODE_ES6 | PYTHON | UNSUPPORTED

text \<open>
  The value stored in \<^verbatim>\<open>HandlerInfo.type\<close>. The source writes
  \<^verbatim>\<open>runtimeLookup[runtime]\<close> into the field under a cast (\<^verbatim>\<open>as HandlerInfo\<close>), and
  \<^verbatim>\<open>runtimeLookup\<close> is an object literal, so indexing it with the name of a member of
  \<^verbatim>\<open>Object.prototype\<close> yields that inherited member, which is no \<^verbatim>\<open>RuntimeType\<close>.
  \<open>ProtoMember k\<close> stands for the member of \<^verbatim>\<open>Object.prototype\<close> named \<open>k\<close>; it is
  different from every enum value.
\<close>

datatype type_value = Enum RuntimeType | ProtoMember string

text \<open>
  An element of a \<^verbatim>\<open>layers\<close> array. The arrays are declared \<^verbatim>\<open>string[]\<close>, but
  \<^verbatim>\<open>applyLayers\<close> pushes whatever indexing the layer table returns, and the table is a
  plain object: indexed with the name of a member of \<^verbatim>\<open>Object.prototype\<close> that it does
  not define itself, it returns that inherited member. \<open>Layer a\<close> is the string \<open>a\<close>,
  \<open>Member k\<close> the member of \<^verbatim>\<open>Object.prototype\<close> named \<open>k\<close>, and \<open>Other n\<close> any other
  value of the runtime, numbered so that equal numbers are the same value for
  \<^verbatim>\<open>Set.prototype.has\<close>.
\<close>

datatype layer_value = Layer string | Member string | Other nat

text \<open>
  The fields of serverless' \<^verbatim>\<open>FunctionDefinition\<close> that the plugin reads or writes.
  \<^verbatim>\<open>layers\<close> is either absent or a reference to an array object.
\<close>

record FunctionDefinition =
  fd_handler :: string
  fd_runtime :: "string option"
  fd_layers :: "ref option"

text \<open>\<^verbatim>\<open>interface HandlerInfo\<close>; \<open>hi_handler\<close> is the reference of the function definition.\<close>

record HandlerInfo =
  hi_name :: string
  hi_type :: type_value
  hi_handler :: ref
  hi_runtime :: "string option"

text \<open>
  The store: function definition objects, array objects, and the next unused array
  reference (an array literal \<^verbatim>\<open>[]\<close> evaluates to a new object).
\<close>

record heap =
  fun_objs :: "ref \<Rightarrow> FunctionDefinition"
  arr_objs :: "ref \<Rightarrow> layer_value list"
  next_arr :: ref

text \<open>
  The fields of \<^verbatim>\<open>Service\<close> that the plugin reads: \<^verbatim>\<open>functions\<close> in the order in which
  \<^verbatim>\<open>Object.entries\<close> lists it, and the optional \<^verbatim>\<open>plugins\<close>.
\<close>

record Service =
  sv_functions :: "(string \<times> ref) list"
  sv_plugins :: "string list option"

text \<open>
  \<^verbatim>\<open>interface LayerJSON\<close>, by its own properties: \<open>regions layers region\<close> is the table
  that \<^verbatim>\<open>layers.regions\<close> itself defines for the region, and that table gives the layer
  identifier that it itself defines for a runtime-name. What indexing returns, inherited
  members included, is \<open>regions_index\<close> and \<open>regionRuntimes_index\<close> below.
\<close>

record LayerJSON =
  regions :: "string \<Rightarrow> (string \<Rightarrow> string option) option"

section \<open>The runtime table\<close>

text \<open>The own properties of \<^verbatim>\<open>runtimeLookup\<close>.\<close>

definition runtimeLookup :: "(string \<times> RuntimeType) list" where
  "runtimeLookup =
     [(''nodejs10.x'', NODE),
      (''nodejs12.x'', NODE),
      (''nodejs8.10'', NODE),
      (''python2.7'', PYTHON),
      (''python3.6'', PYTHON),
      (''python3.7'', PYTHON),
      (''python3.8'', PYTHON)]"

text \<open>
  The property names of \<^verbatim>\<open>Object.prototype\<close> (ECMAScript, with the legacy accessors of
  its Annex B that Node.js provides). An object literal inherits all of them.
\<close>

definition objectPrototype :: "string list" where
  "objectPrototype =
     [''constructor'', ''hasOwnProperty'', ''isPrototypeOf'', ''propertyIsEnumerable'',
      ''toLocaleString'', ''toString'', ''valueOf'', ''__proto__'',
      ''__defineGetter__'', ''__defineSetter__'', ''__lookupGetter__'', ''__lookupSetter__'']"

text \<open>
  \<^verbatim>\<open>runtimeLookup[key]\<close>: the own property if there is one, else the inherited member,
  else \<^verbatim>\<open>undefined\<close> (\<open>None\<close>).
\<close>

definition runtimeLookup_index :: "string \<Rightarrow> type_value option" where
  "runtimeLookup_index key =
     (case map_of runtimeLookup key of
        Some t \<Rightarrow> Some (Enum t)
      | None \<Rightarrow> if key \<in> set objectPrototype then Some (ProtoMember key) else None)"

text \<open>
  \<^verbatim>\<open>key in runtimeLookup\<close>: the \<^verbatim>\<open>in\<close> operator searches the prototype chain too.
\<close>

definition in_runtimeLookup :: "string \<Rightarrow> bool" where
  "in_runtimeLookup key \<longleftrightarrow>
     key \<in> set (map fst runtimeLookup) \<or> key \<in> set objectPrototype"

section \<open>getHandlerPath (src/src/util.ts)\<close>

text \<open>
  \<^verbatim>\<open>String.prototype.split\<close> with a one-character separator: the result is never empty,
  and has one more part than the string has separators.
\<close>

fun split :: "char \<Rightarrow> string \<Rightarrow> string list" where
  "split c [] = [[]]"
| "split c (x # xs) =
     (if x = c then [] # split c xs
      else (case split c xs of
              [] \<Rightarrow> [[x]]
            | p # ps \<Rightarrow> (x # p) # ps))"

text \<open>\<^verbatim>\<open>Array.prototype.join\<close>.\<close>

fun join :: "string \<Rightarrow> string list \<Rightarrow> string" where
  "join sep [] = []"
| "join sep [p] = p"
| "join sep (p # q # ps) = p @ sep @ join sep (q # ps)"

record HandlerPath =
  hp_method :: string
  hp_filename :: string

text \<open>
  \<^verbatim>\<open>getHandlerPath\<close>; \<open>None\<close> is the bare \<^verbatim>\<open>return\<close> (\<^verbatim>\<open>undefined\<close>). With at least two
  parts, \<^verbatim>\<open>parts[parts.length - 1]\<close> is the last part and \<^verbatim>\<open>parts.slice(0, -1)\<close> is all
  but the last.
\<close>

definition getHandlerPath :: "heap \<Rightarrow> HandlerInfo \<Rightarrow> HandlerPath option" where
  "getHandlerPath s handlerInfo =
     (let handlerfile = fd_handler (fun_objs s (hi_handler handlerInfo));
          parts = split CHR ''.'' handlerfile
      in if length parts < 2 then None
         else Some \<lparr>hp_method = last parts,
                    hp_filename = join ''.'' (butlast parts)\<rparr>)"

section \<open>findHandlers (src/src/layer.ts)\<close>

text \<open>\<^verbatim>\<open>hasWebpackPlugin\<close>.\<close>

definition hasWebpackPlugin :: "Service \<Rightarrow> bool" where
  "hasWebpackPlugin service =
     (case sv_plugins service of
        None \<Rightarrow> False
      | Some plugins \<Rightarrow> find (\<lambda>plugin. plugin = ''serverless-webpack'') plugins \<noteq> None)"

text \<open>
  The callback that \<^verbatim>\<open>findHandlers\<close> maps over the entries; \<open>None\<close> is its bare
  \<^verbatim>\<open>return\<close>, which the following \<^verbatim>\<open>filter\<close> removes. \<open>existsSync\<close> is
  \<^verbatim>\<open>fs.existsSync\<close>, the state of the file system.
\<close>

definition findHandler ::
  "heap \<Rightarrow> (string \<Rightarrow> bool) \<Rightarrow> Service \<Rightarrow> string option \<Rightarrow> RuntimeType option \<Rightarrow>
   string \<times> ref \<Rightarrow> HandlerInfo option" where
  "findHandler s existsSync service defaultRuntime defaultNodeRuntime entry =
     (let name = fst entry;
          handler = snd entry;
          runtime = (case fd_runtime (fun_objs s handler) of
                       None \<Rightarrow> defaultRuntime
                     | Some r \<Rightarrow> Some r)
      in case runtime of
           None \<Rightarrow>
             Some \<lparr>hi_name = name, hi_type = Enum UNSUPPORTED,
                   hi_handler = handler, hi_runtime = runtime\<rparr>
         | Some r \<Rightarrow>
             (case (if in_runtimeLookup r then runtimeLookup_index r else None) of
                None \<Rightarrow>
                  Some \<lparr>hi_name = name, hi_type = Enum UNSUPPORTED,
                        hi_handler = handler, hi_runtime = runtime\<rparr>
              | Some t \<Rightarrow>
                  (let handlerInfo = \<lparr>hi_name = name, hi_type = t,
                                      hi_handler = handler, hi_runtime = runtime\<rparr>
                   in if hi_type handlerInfo = Enum NODE then
                        (case getHandlerPath s handlerInfo of
                           None \<Rightarrow> None
                         | Some handlerPath \<Rightarrow>
                             (case defaultNodeRuntime of
                                None \<Rightarrow>
                                  (let h1 = (if existsSync (''./'' @ hp_filename handlerPath @ ''.es.js'')
                                                \<or> existsSync (''./'' @ hp_filename handlerPath @ ''.mjs'')
                                                \<or> hasWebpackPlugin service
                                             then handlerInfo\<lparr>hi_type := Enum NODE_ES6\<rparr>
                                             else handlerInfo);
                                       h2 = (if existsSync (''./'' @ hp_filename handlerPath @ ''.ts'')
                                             then h1\<lparr>hi_type := Enum NODE_TS\<rparr>
                                             else h1)
                                   in Some h2)
                              | Some d \<Rightarrow> Some (handlerInfo\<lparr>hi_type := Enum d\<rparr>)))
                      else Some handlerInfo)))"

definition findHandlers ::
  "heap \<Rightarrow> (string \<Rightarrow> bool) \<Rightarrow> Service \<Rightarrow> string option \<Rightarrow> RuntimeType option \<Rightarrow>
   HandlerInfo list" where
  "findHandlers s existsSync service defaultRuntime defaultNodeRuntime =
     List.map_filter (findHandler s existsSync service defaultRuntime defaultNodeRuntime)
       (sv_functions service)"

section \<open>applyLayers (src/src/layer.ts)\<close>

text \<open>
  \<^verbatim>\<open>getLayers\<close> returns a reference to an array: the array of the function definition, or,
  when the field is \<^verbatim>\<open>undefined\<close>, a new empty array.
\<close>

definition getLayers :: "heap \<Rightarrow> HandlerInfo \<Rightarrow> ref \<times> heap" where
  "getLayers s handler =
     (case fd_layers (fun_objs s (hi_handler handler)) of
        None \<Rightarrow>
          (next_arr s,
           s\<lparr>arr_objs := (arr_objs s)(next_arr s := []), next_arr := Suc (next_arr s)\<rparr>)
      | Some layersList \<Rightarrow> (layersList, s))"

text \<open>\<^verbatim>\<open>setLayers\<close>: the assignment \<^verbatim>\<open>handler.handler.layers = layers\<close>.\<close>

definition setLayers :: "heap \<Rightarrow> HandlerInfo \<Rightarrow> ref \<Rightarrow> heap" where
  "setLayers s handler layers =
     s\<lparr>fun_objs := (fun_objs s)
          (hi_handler handler := (fun_objs s (hi_handler handler))\<lparr>fd_layers := Some layers\<rparr>)\<rparr>"

text \<open>\<^verbatim>\<open>Array.prototype.push\<close> of one element, in place.\<close>

definition push :: "heap \<Rightarrow> ref \<Rightarrow> layer_value \<Rightarrow> heap" where
  "push s a x = s\<lparr>arr_objs := (arr_objs s)(a := arr_objs s a @ [x])\<rparr>"

text \<open>
  What \<^verbatim>\<open>layers.regions[region]\<close> returns: a region's table, or a member inherited from
  \<^verbatim>\<open>Object.prototype\<close>.
\<close>

datatype region_value = Table "string \<Rightarrow> string option" | RegionMember string

text \<open>
  \<^verbatim>\<open>layers.regions[region]\<close>: the own property if there is one, else the inherited
  member, else \<^verbatim>\<open>undefined\<close> (\<open>None\<close>), as for \<^verbatim>\<open>runtimeLookup\<close>.
\<close>

definition regions_index :: "LayerJSON \<Rightarrow> string \<Rightarrow> region_value option" where
  "regions_index layers region =
     (case regions layers region of
        Some t \<Rightarrow> Some (Table t)
      | None \<Rightarrow> if region \<in> set objectPrototype then Some (RegionMember region) else None)"

text \<open>
  \<^verbatim>\<open>regionRuntimes[runtime]\<close>. On a region's table: the own property, else the inherited
  member, else \<^verbatim>\<open>undefined\<close>. When \<^verbatim>\<open>regionRuntimes\<close> is itself a member of
  \<^verbatim>\<open>Object.prototype\<close> (the region was one of their names), the read is a property read
  on a built-in object of the runtime; \<open>builtins m k\<close> is what reading \<open>k\<close> on the member
  \<open>m\<close> returns, for example the string \<^verbatim>\<open>"Object"\<close> for \<^verbatim>\<open>name\<close> on \<^verbatim>\<open>constructor\<close>. The
  built-in objects are not part of the repository, so \<open>builtins\<close> is a parameter.
\<close>

definition regionRuntimes_index ::
  "(string \<Rightarrow> string \<Rightarrow> layer_value option) \<Rightarrow> region_value \<Rightarrow> string \<Rightarrow> layer_value option" where
  "regionRuntimes_index builtins regionRuntimes runtime =
     (case regionRuntimes of
        Table t \<Rightarrow>
          (case t runtime of
             Some arn \<Rightarrow> Some (Layer arn)
           | None \<Rightarrow> if runtime \<in> set objectPrototype then Some (Member runtime) else None)
      | RegionMember m \<Rightarrow> builtins m runtime)"

text \<open>
  One iteration of the \<^verbatim>\<open>for\<close> loop of \<^verbatim>\<open>applyLayers\<close>. \<^verbatim>\<open>new Set(currentLayers).has\<close> is
  membership in the array as it is at that moment.
\<close>

definition applyLayers_body ::
  "(string \<Rightarrow> string \<Rightarrow> layer_value option) \<Rightarrow> region_value \<Rightarrow> HandlerInfo \<Rightarrow> heap \<Rightarrow> heap" where
  "applyLayers_body builtins regionRuntimes handler s =
     (if hi_type handler = Enum UNSUPPORTED then s
      else
        (let layerARN = (case hi_runtime handler of
                           Some runtime \<Rightarrow> regionRuntimes_index builtins regionRuntimes runtime
                         | None \<Rightarrow> None)
         in case layerARN of
              None \<Rightarrow> s
            | Some arn \<Rightarrow>
                (let (currentLayers, s1) = getLayers s handler;
                     s2 = (if arn \<notin> set (arr_objs s1 currentLayers)
                           then push s1 currentLayers arn else s1)
                 in setLayers s2 handler currentLayers)))"

fun applyLayers_loop ::
  "(string \<Rightarrow> string \<Rightarrow> layer_value option) \<Rightarrow> region_value \<Rightarrow> HandlerInfo list \<Rightarrow> heap \<Rightarrow> heap" where
  "applyLayers_loop builtins regionRuntimes [] s = s"
| "applyLayers_loop builtins regionRuntimes (handler # handlers) s =
     applyLayers_loop builtins regionRuntimes handlers
       (applyLayers_body builtins regionRuntimes handler s)"

text \<open>\<^verbatim>\<open>applyLayers\<close>: the store after the call.\<close>

definition applyLayers ::
  "(string \<Rightarrow> string \<Rightarrow> layer_value option) \<Rightarrow> string \<Rightarrow> HandlerInfo list \<Rightarrow> LayerJSON \<Rightarrow>
   heap \<Rightarrow> heap" where
  "applyLayers builtins region handlers layers s =
     (case regions_index layers region of
        None \<Rightarrow> s
      | Some regionRuntimes \<Rightarrow> applyLayers_loop builtins regionRuntimes handlers s)"

text \<open>
  What an observer reads in \<^verbatim>\<open>layers\<close> of the function definition at \<open>f\<close>: \<open>None\<close> when
  the field is absent, else the contents of the array.
\<close>

definition layers_of :: "heap \<Rightarrow> ref \<Rightarrow> layer_value list option" where
  "layers_of s f = map_option (arr_objs s) (fd_layers (fun_objs s f))"

text \<open>The same with the default of \<^verbatim>\<open>getLayers\<close>: the empty list for an absent field.\<close>

definition layer_list :: "heap \<Rightarrow> ref \<Rightarrow> layer_value list" where
  "layer_list s f = (case layers_of s f of None \<Rightarrow> [] | Some l \<Rightarrow> l)"

section \<open>setEnvConfiguration (src/src/env.ts)\<close>

text \<open>
  A value of \<^verbatim>\<open>provider.environment\<close>: the plugin writes strings and one boolean; the
  host's own entries may be of other kinds.
\<close>

datatype env_value = Str string | Bool bool | Num int | Null

datatype module_type = es6 | node | typescript

record Configuration =
  addLayers :: bool
  apiKey :: "string option"
  apiKMSKey :: "string option"
  site :: string
  logLevel :: string
  flushMetricsToLogs :: bool
  nodeModuleType :: "module_type option"

definition apiKeyEnvVar :: string where "apiKeyEnvVar = ''DD_API_KEY''"
definition apiKeyKMSEnvVar :: string where "apiKeyKMSEnvVar = ''DD_KMS_API_KEY''"
definition siteURLEnvVar :: string where "siteURLEnvVar = ''DD_SITE''"
definition logLevelEnvVar :: string where "logLevelEnvVar = ''DD_LOG_LEVEL''"
definition logForwardingEnvVar :: string where "logForwardingEnvVar = ''DD_FLUSH_TO_LOG''"

text \<open>\<^verbatim>\<open>defaultConfiguration\<close>; the two optional keys are absent.\<close>

definition defaultConfiguration :: Configuration where
  "defaultConfiguration =
     \<lparr>addLayers = True, apiKey = None, apiKMSKey = None, site = ''datadoghq.com'',
      logLevel = ''info'', flushMetricsToLogs = False, nodeModuleType = None\<rparr>"

text \<open>
  \<^verbatim>\<open>setEnvConfiguration\<close>, as a function from \<^verbatim>\<open>provider.environment\<close> before the call
  (\<open>None\<close> when it is \<^verbatim>\<open>undefined\<close>) to the environment after it. A key maps to \<open>None\<close>
  when reading it gives \<^verbatim>\<open>undefined\<close>.
\<close>

definition setEnvConfiguration ::
  "Configuration \<Rightarrow> (string \<Rightarrow> env_value option) option \<Rightarrow> (string \<Rightarrow> env_value option)" where
  "setEnvConfiguration config provider_environment =
     (let environment = (case provider_environment of None \<Rightarrow> Map.empty | Some e \<Rightarrow> e);
          environment = (case apiKey config of
                           Some k \<Rightarrow> if environment apiKeyEnvVar = None
                                     then environment(apiKeyEnvVar \<mapsto> Str k) else environment
                         | None \<Rightarrow> environment);
          environment = (case apiKMSKey config of
                           Some k \<Rightarrow> if environment apiKeyKMSEnvVar = None
                                     then environment(apiKeyKMSEnvVar \<mapsto> Str k) else environment
                         | None \<Rightarrow> environment);
          environment = (if environment siteURLEnvVar = None
                         then environment(siteURLEnvVar \<mapsto> Str (site config)) else environment);
          environment = (if environment logLevelEnvVar = None
                         then environment(logLevelEnvVar \<mapsto> Str (logLevel config)) else environment);
          environment = (if environment logForwardingEnvVar = None
                         then environment(logForwardingEnvVar \<mapsto> Bool (flushMetricsToLogs config))
                         else environment)
      in environment)"

section \<open>Store invariants\<close>

text \<open>
  In a JavaScript heap the array that a function definition refers to was allocated
  before, so a new array is never one that some \<^verbatim>\<open>layers\<close> field already holds. In the
  store this reads: the reference in the \<^verbatim>\<open>layers\<close> field of the record's function
  definition, if there is one, lies below \<open>next_arr\<close>.
\<close>

definition ref_allocated :: "heap \<Rightarrow> HandlerInfo \<Rightarrow> bool" where
  "ref_allocated s h =
     (case fd_layers (fun_objs s (hi_handler h)) of
        None \<Rightarrow> True
      | Some a \<Rightarrow> a < next_arr s)"

text \<open>
  A record is settled in a store when its loop iteration has nothing left to do: it is
  skipped, or its layer identifier is already in the array of its function definition.
\<close>

definition settled :: "(string \<Rightarrow> layer_value option) \<Rightarrow> heap \<Rightarrow> HandlerInfo \<Rightarrow> bool" where
  "settled rr s h =
     (hi_type h = Enum UNSUPPORTED \<or>
      (case hi_runtime h of
         None \<Rightarrow> True
       | Some r \<Rightarrow>
           (case rr r of
              None \<Rightarrow> True
            | Some arn \<Rightarrow>
                (case fd_layers (fun_objs s (hi_handler h)) of
                   None \<Rightarrow> False
                 | Some a \<Rightarrow> arn \<in> set (arr_objs s a)))))"

section \<open>Example configurations\<close>

text \<open>
  The inputs of the repository's own tests (layer.spec.ts), used below to run the
  theorems on concrete data: a function definition without layers, a store in which
  every reference holds that definition, the store of the tests that start from a layer
  list, the handler record of the \<^verbatim>\<open>applyLayers\<close> tests, and the own properties of
  their layer table \<^verbatim>\<open>{regions: {"us-east-1": {"nodejs10.x": arn}}}\<close>.
\<close>

definition ex_fd :: "string \<Rightarrow> string option \<Rightarrow> FunctionDefinition" where
  "ex_fd h r = \<lparr>fd_handler = h, fd_runtime = r, fd_layers = None\<rparr>"

definition ex_heap :: "FunctionDefinition \<Rightarrow> heap" where
  "ex_heap fd = \<lparr>fun_objs = (\<lambda>_. fd), arr_objs = (\<lambda>_. []), next_arr = 0\<rparr>"

definition ex_heap_layers :: "layer_value list \<Rightarrow> heap" where
  "ex_heap_layers l =
     \<lparr>fun_objs = (\<lambda>_. ex_fd ''myfile.handler'' (Some ''nodejs10.x''))
                  (0 := (ex_fd ''myfile.handler'' (Some ''nodejs10.x''))\<lparr>fd_layers := Some 0\<rparr>),
      arr_objs = (\<lambda>_. [])(0 := l),
      next_arr = 1\<rparr>"

definition ex_record :: HandlerInfo where
  "ex_record = \<lparr>hi_name = ''func-a'', hi_type = Enum NODE, hi_handler = 0,
                hi_runtime = Some ''nodejs10.x''\<rparr>"

definition ex_layers :: "string \<Rightarrow> LayerJSON" where
  "ex_layers arn = \<lparr>regions = [''us-east-1'' \<mapsto> [''nodejs10.x'' \<mapsto> arn]]\<rparr>"

text \<open>
  The record that \<^verbatim>\<open>findHandlers\<close> makes of a function with the runtime-name
  \<^verbatim>\<open>constructor\<close>, a hand-made record with the runtime-name \<^verbatim>\<open>name\<close>, and two
  samples of the built-in objects: one where no read on them returns a value (for the
  runs in the region \<^verbatim>\<open>us-east-1\<close>, which never read them), one where \<^verbatim>\<open>name\<close> on the
  inherited constructor returns \<^verbatim>\<open>"Object"\<close>.
\<close>

definition ex_record_constructor :: HandlerInfo where
  "ex_record_constructor =
     \<lparr>hi_name = ''func-a'', hi_type = ProtoMember ''constructor'', hi_handler = 0,
      hi_runtime = Some ''constructor''\<rparr>"

definition ex_record_name :: HandlerInfo where
  "ex_record_name = \<lparr>hi_name = ''func-a'', hi_type = Enum NODE, hi_handler = 0,
                     hi_runtime = Some ''name''\<rparr>"

definition no_builtins :: "string \<Rightarrow> string \<Rightarrow> layer_value option" where
  "no_builtins m k = None"

definition ex_builtins :: "string \<Rightarrow> string \<Rightarrow> layer_value option" where
  "ex_builtins m k = (if m = ''constructor'' \<and> k = ''name'' then Some (Layer ''Object'') else None)"

lemmas ex_defs = ex_record_def ex_layers_def ex_fd_def ex_heap_def ex_heap_layers_def
  ex_record_constructor_def ex_record_name_def no_builtins_def ex_builtins_def

lemmas run_defs = applyLayers_def applyLayers_body_def getLayers_def setLayers_def push_def
  layer_list_def layers_of_def regions_index_def regionRuntimes_index_def objectPrototype_def

lemmas env_names = apiKeyEnvVar_def apiKeyKMSEnvVar_def siteURLEnvVar_def logLevelEnvVar_def
  logForwardingEnvVar_def

section \<open>Handler references\<close>

text \<open>
  \<^verbatim>\<open>split\<close> and \<^verbatim>\<open>join\<close> are inverse, no part holds the separator, and there are fewer
  than two parts exactly when the string has no separator. So \<^verbatim>\<open>getHandlerPath\<close> fails
  exactly on a reference without a dot, and otherwise cuts it at its last dot.
\<close>

lemma length_split: "length (split c s) = Suc (length (filter (\<lambda>x. x = c) s))"
  by (induction s) (auto split: list.splits)

lemma split_short_iff: "length (split c s) < 2 \<longleftrightarrow> c \<notin> set s"
  by (auto simp: length_split filter_empty_conv)

lemma split_nonempty: "split c s \<noteq> []"
  by (induction s) (auto split: list.splits)

lemma join_split: "join [c] (split c s) = s"
proof (induction s)
  case Nil
  then show ?case by simp
next
  case (Cons x xs)
  obtain p ps where sp: "split c xs = p # ps"
    using split_nonempty [of c xs] by (cases "split c xs") auto
  with Cons have ih: "join [c] (p # ps) = xs" by simp
  show ?case
  proof (cases "x = c")
    case True
    with sp ih show ?thesis by simp
  next
    case False
    with sp ih show ?thesis by (cases ps) auto
  qed
qed

lemma join_snoc: "ps \<noteq> [] \<Longrightarrow> join sep (ps @ [p]) = join sep ps @ sep @ p"
  by (induction sep ps rule: join.induct) simp_all

lemma split_parts_free: "p \<in> set (split c s) \<Longrightarrow> c \<notin> set p"
  by (induction s arbitrary: p) (auto split: if_splits list.splits)

lemma getHandlerPath_None_iff:
  "getHandlerPath s h = None \<longleftrightarrow> CHR ''.'' \<notin> set (fd_handler (fun_objs s (hi_handler h)))"
  by (simp add: getHandlerPath_def Let_def split_short_iff)

lemma getHandlerPath_Some:
  assumes "getHandlerPath s h = Some hp"
  shows "fd_handler (fun_objs s (hi_handler h)) = hp_filename hp @ ''.'' @ hp_method hp \<and>
         CHR ''.'' \<notin> set (hp_method hp)"
proof -
  let ?file = "fd_handler (fun_objs s (hi_handler h))"
  from assms have len: "\<not> length (split CHR ''.'' ?file) < 2"
    and hp: "hp = \<lparr>hp_method = last (split CHR ''.'' ?file),
                       hp_filename = join ''.'' (butlast (split CHR ''.'' ?file))\<rparr>"
    by (auto simp: getHandlerPath_def Let_def split: if_splits)
  obtain ys y where parts: "split CHR ''.'' ?file = ys @ [y]"
    using split_nonempty [of "CHR ''.''" ?file] by (cases "split CHR ''.'' ?file" rule: rev_cases) auto
  with len have "ys \<noteq> []" by auto
  then have "join ''.'' (ys @ [y]) = join ''.'' ys @ ''.'' @ y"
    by (rule join_snoc)
  with join_split [of "CHR ''.''" ?file] parts have "?file = join ''.'' ys @ ''.'' @ y"
    by simp
  moreover have "CHR ''.'' \<notin> set y"
    using parts by (intro split_parts_free [of _ _ ?file]) simp
  ultimately show ?thesis
    using parts by (simp add: hp)
qed

lemma last_separator_unique:
  assumes "a @ c # b = a' @ c # b'" "c \<notin> set b" "c \<notin> set b'"
  shows "a = a' \<and> b = b'"
proof -
  from assms(1) have "rev b @ c # rev a = rev b' @ c # rev a'"
    by (metis rev.simps(2) rev_append append_assoc append_Cons append_Nil)
  then have "takeWhile (\<lambda>x. x \<noteq> c) (rev b @ c # rev a) =
             takeWhile (\<lambda>x. x \<noteq> c) (rev b' @ c # rev a')"
    by simp
  moreover have "takeWhile (\<lambda>x. x \<noteq> c) (rev b @ c # rev a) = rev b"
    using assms(2) by (auto simp: takeWhile_tail)
  moreover have "takeWhile (\<lambda>x. x \<noteq> c) (rev b' @ c # rev a') = rev b'"
    using assms(3) by (auto simp: takeWhile_tail)
  ultimately have "b = b'" by simp
  with assms(1) show ?thesis by simp
qed

text \<open>
  A reference that is a module path, a dot and a method name without a dot parses to
  exactly that module path and that method name.
\<close>

lemma getHandlerPath_parsed:
  assumes "fd_handler (fun_objs s (hi_handler h)) = modulePath @ ''.'' @ methodName"
    and "CHR ''.'' \<notin> set methodName"
  shows "getHandlerPath s h = Some \<lparr>hp_method = methodName, hp_filename = modulePath\<rparr>"
proof -
  from assms(1) have "CHR ''.'' \<in> set (fd_handler (fun_objs s (hi_handler h)))"
    by simp
  then obtain hp where hp: "getHandlerPath s h = Some hp"
    using getHandlerPath_None_iff [of s h] by (cases "getHandlerPath s h") auto
  from getHandlerPath_Some [OF hp] assms(1)
  have "modulePath @ CHR ''.'' # methodName = hp_filename hp @ CHR ''.'' # hp_method hp"
    and "CHR ''.'' \<notin> set (hp_method hp)"
    by simp_all
  with assms(2) have "modulePath = hp_filename hp \<and> methodName = hp_method hp"
    by (intro last_separator_unique)
  with hp show ?thesis by simp
qed

section \<open>The classifier, entry by entry\<close>

lemma hasWebpackPlugin_iff:
  "hasWebpackPlugin service \<longleftrightarrow>
     (\<exists>plugins. sv_plugins service = Some plugins \<and> ''serverless-webpack'' \<in> set plugins)"
  by (auto simp: hasWebpackPlugin_def find_None_iff split: option.splits)

lemma findHandler_plugins_only:
  "findHandler s ex \<lparr>sv_functions = fs, sv_plugins = pl\<rparr> dr dn e =
   findHandler s ex \<lparr>sv_functions = fs', sv_plugins = pl\<rparr> dr dn e"
proof -
  have hwp: "hasWebpackPlugin \<lparr>sv_functions = fs, sv_plugins = pl\<rparr> =
        hasWebpackPlugin \<lparr>sv_functions = fs', sv_plugins = pl\<rparr>"
    by (simp add: hasWebpackPlugin_def)
  show ?thesis
    unfolding findHandler_def hwp by (rule refl)
qed

lemma findHandlers_split:
  "findHandlers s ex \<lparr>sv_functions = pre @ e # post, sv_plugins = pl\<rparr> dr dn =
   findHandlers s ex \<lparr>sv_functions = pre, sv_plugins = pl\<rparr> dr dn @
   (case findHandler s ex \<lparr>sv_functions = pre @ e # post, sv_plugins = pl\<rparr> dr dn e of
      None \<Rightarrow> [] | Some h \<Rightarrow> [h]) @
   findHandlers s ex \<lparr>sv_functions = post, sv_plugins = pl\<rparr> dr dn"
proof -
  let ?f = "findHandler s ex \<lparr>sv_functions = pre @ e # post, sv_plugins = pl\<rparr> dr dn"
  have pre: "findHandler s ex \<lparr>sv_functions = pre, sv_plugins = pl\<rparr> dr dn = ?f"
    and post: "findHandler s ex \<lparr>sv_functions = post, sv_plugins = pl\<rparr> dr dn = ?f"
    by (rule ext, rule findHandler_plugins_only)+
  show ?thesis
    unfolding findHandlers_def pre post
    by (simp add: List.map_filter_def split: option.splits)
qed

lemma own_key_lookup:
  "map_of runtimeLookup r = Some t \<Longrightarrow> in_runtimeLookup r \<and> runtimeLookup_index r = Some (Enum t)"
  by (auto simp: in_runtimeLookup_def runtimeLookup_index_def dest: map_of_SomeD intro: rev_image_eqI)

lemma no_own_key_lookup:
  "map_of runtimeLookup r = None \<Longrightarrow>
   (if in_runtimeLookup r then runtimeLookup_index r else None) =
   (if r \<in> set objectPrototype then Some (ProtoMember r) else None)"
proof -
  assume none: "map_of runtimeLookup r = None"
  then have "r \<notin> set (map fst runtimeLookup)"
    by (simp add: map_of_eq_None_iff)
  with none show ?thesis
    by (simp add: in_runtimeLookup_def runtimeLookup_index_def del: set_map)
qed

lemma findHandler_not_node:
  assumes "(case fd_runtime (fun_objs s f) of None \<Rightarrow> dr | Some r \<Rightarrow> Some r) = eff"
    and "eff = None \<or> (\<exists>r. eff = Some r \<and> map_of runtimeLookup r \<noteq> Some NODE)"
  shows "\<exists>t. findHandler s ex sv dr dn (name, f) =
           Some \<lparr>hi_name = name, hi_type = t, hi_handler = f, hi_runtime = eff\<rparr>"
proof (cases eff)
  case None
  with assms(1) show ?thesis by (simp add: findHandler_def)
next
  case (Some r)
  with assms(2) have nn: "map_of runtimeLookup r \<noteq> Some NODE" by simp
  show ?thesis
  proof (cases "map_of runtimeLookup r")
    case None
    from no_own_key_lookup [OF None] assms(1) Some show ?thesis
      by (simp add: findHandler_def)
  next
    case (Some t)
    with nn have "t \<noteq> NODE" by simp
    with own_key_lookup [OF Some] assms(1) \<open>eff = Some r\<close> show ?thesis
      by (simp add: findHandler_def)
  qed
qed

lemma findHandler_node:
  assumes "(case fd_runtime (fun_objs s f) of None \<Rightarrow> dr | Some r \<Rightarrow> Some r) = Some r"
    and "map_of runtimeLookup r = Some NODE"
  shows "findHandler s ex sv dr dn (name, f) =
     (case getHandlerPath s \<lparr>hi_name = name, hi_type = Enum NODE, hi_handler = f, hi_runtime = Some r\<rparr> of
        None \<Rightarrow> None
      | Some hp \<Rightarrow>
          Some \<lparr>hi_name = name,
                hi_type = (case dn of
                             Some d \<Rightarrow> Enum d
                           | None \<Rightarrow>
                               if ex (''./'' @ hp_filename hp @ ''.ts'') then Enum NODE_TS
                               else if ex (''./'' @ hp_filename hp @ ''.es.js'')
                                       \<or> ex (''./'' @ hp_filename hp @ ''.mjs'')
                                       \<or> hasWebpackPlugin sv then Enum NODE_ES6
                               else Enum NODE),
                hi_handler = f, hi_runtime = Some r\<rparr>)"
  using assms(1) own_key_lookup [OF assms(2)]
  by (simp add: findHandler_def Let_def split: option.splits)

section \<open>The loop of applyLayers\<close>

lemma fd_layers_same: "fd_layers x = Some a \<Longrightarrow> x\<lparr>fd_layers := Some a\<rparr> = x"
  by (cases x) simp

lemma body_skip:
  "hi_type h = Enum UNSUPPORTED \<or> hi_runtime h = None \<or>
   (\<exists>r. hi_runtime h = Some r \<and> regionRuntimes_index b rv r = None) \<Longrightarrow> applyLayers_body b rv h s = s"
  by (auto simp: applyLayers_body_def)

lemma body_present:
  assumes "hi_type h \<noteq> Enum UNSUPPORTED" "hi_runtime h = Some r" "regionRuntimes_index b rv r = Some arn"
    and "fd_layers (fun_objs s (hi_handler h)) = Some a"
  shows "applyLayers_body b rv h s =
           (if arn \<in> set (arr_objs s a) then s
            else s\<lparr>arr_objs := (arr_objs s)(a := arr_objs s a @ [arn])\<rparr>)"
  using assms
  by (simp add: applyLayers_body_def getLayers_def setLayers_def push_def fd_layers_same)

lemma body_absent:
  assumes "hi_type h \<noteq> Enum UNSUPPORTED" "hi_runtime h = Some r" "regionRuntimes_index b rv r = Some arn"
    and "fd_layers (fun_objs s (hi_handler h)) = None"
  shows "applyLayers_body b rv h s =
           s\<lparr>arr_objs := (arr_objs s)(next_arr s := [arn]),
             next_arr := Suc (next_arr s),
             fun_objs := (fun_objs s)
               (hi_handler h := (fun_objs s (hi_handler h))\<lparr>fd_layers := Some (next_arr s)\<rparr>)\<rparr>"
  using assms
  by (simp add: applyLayers_body_def getLayers_def setLayers_def push_def)

lemma loop_append:
  "applyLayers_loop b rv (xs @ ys) s = applyLayers_loop b rv ys (applyLayers_loop b rv xs s)"
  by (induction xs arbitrary: s) simp_all

lemma applyLayers_append:
  "applyLayers b region (xs @ ys) layers s =
   applyLayers b region ys layers (applyLayers b region xs layers s)"
  by (simp add: applyLayers_def loop_append split: option.splits)

lemma body_cases:
  obtains (skip) "applyLayers_body b rv h s = s"
    "hi_type h = Enum UNSUPPORTED \<or> hi_runtime h = None \<or>
     (\<exists>r. hi_runtime h = Some r \<and> regionRuntimes_index b rv r = None)"
  | (member) r arn a where "hi_type h \<noteq> Enum UNSUPPORTED" "hi_runtime h = Some r" "regionRuntimes_index b rv r = Some arn"
      "fd_layers (fun_objs s (hi_handler h)) = Some a" "arn \<in> set (arr_objs s a)"
      "applyLayers_body b rv h s = s"
  | (append) r arn a where "hi_type h \<noteq> Enum UNSUPPORTED" "hi_runtime h = Some r" "regionRuntimes_index b rv r = Some arn"
      "fd_layers (fun_objs s (hi_handler h)) = Some a" "arn \<notin> set (arr_objs s a)"
      "applyLayers_body b rv h s = s\<lparr>arr_objs := (arr_objs s)(a := arr_objs s a @ [arn])\<rparr>"
  | (fresh) r arn where "hi_type h \<noteq> Enum UNSUPPORTED" "hi_runtime h = Some r" "regionRuntimes_index b rv r = Some arn"
      "fd_layers (fun_objs s (hi_handler h)) = None"
      "applyLayers_body b rv h s =
           s\<lparr>arr_objs := (arr_objs s)(next_arr s := [arn]),
             next_arr := Suc (next_arr s),
             fun_objs := (fun_objs s)
               (hi_handler h := (fun_objs s (hi_handler h))\<lparr>fd_layers := Some (next_arr s)\<rparr>)\<rparr>"
proof (cases "hi_type h = Enum UNSUPPORTED \<or> hi_runtime h = None \<or>
     (\<exists>r. hi_runtime h = Some r \<and> regionRuntimes_index b rv r = None)")
  case True
  with body_skip [OF True] skip show ?thesis by blast
next
  case False
  then obtain r arn where a: "hi_type h \<noteq> Enum UNSUPPORTED" "hi_runtime h = Some r" "regionRuntimes_index b rv r = Some arn"
    by auto
  show ?thesis
  proof (cases "fd_layers (fun_objs s (hi_handler h))")
    case None
    from a None body_absent [of h r b rv arn s] show ?thesis by (intro fresh) simp_all
  next
    case (Some l)
    show ?thesis
    proof (cases "arn \<in> set (arr_objs s l)")
      case True
      with a Some body_present [of h r b rv arn s l] show ?thesis by (intro member) simp_all
    next
      case False
      with a Some body_present [of h r b rv arn s l] show ?thesis by (intro append) simp_all
    qed
  qed
qed

lemma body_distinct:
  assumes "distinct (layer_list s f)"
  shows "distinct (layer_list (applyLayers_body b rv h s) f)"
proof (cases rule: body_cases [of b rv h s])
  case skip
  with assms show ?thesis by simp
next
  case member
  with assms show ?thesis by simp
next
  case (append r arn a)
  with assms show ?thesis
    by (auto simp: layer_list_def layers_of_def split: option.splits)
next
  case (fresh r arn)
  with assms show ?thesis
    by (auto simp: layer_list_def layers_of_def split: option.splits)
qed

lemma loop_distinct:
  "distinct (layer_list s f) \<Longrightarrow> distinct (layer_list (applyLayers_loop b rv hs s) f)"
  by (induction hs arbitrary: s) (simp_all add: body_distinct)

lemma body_allocated:
  assumes "ref_allocated s h"
  shows "ref_allocated (applyLayers_body b rv h' s) h"
proof (cases rule: body_cases [of b rv h' s])
  case (fresh r arn)
  with assms show ?thesis
    by (auto simp: ref_allocated_def split: option.splits)
next
  case (append r arn a)
  with assms show ?thesis
    by (simp add: ref_allocated_def split: option.splits)
qed (use assms in simp_all)

lemma body_settles: "settled (regionRuntimes_index b rv) (applyLayers_body b rv h s) h"
proof (cases rule: body_cases [of b rv h s])
  case skip
  then show ?thesis by (auto simp: settled_def)
qed (simp_all add: settled_def)

lemma body_keeps_settled:
  assumes "settled (regionRuntimes_index b rv) s h" "ref_allocated s h"
  shows "settled (regionRuntimes_index b rv) (applyLayers_body b rv h' s) h"
proof (cases rule: body_cases [of b rv h' s])
  case (append r arn a)
  with assms show ?thesis
    by (auto simp: settled_def split: option.splits)
next
  case (fresh r arn)
  with assms show ?thesis
    by (auto simp: settled_def ref_allocated_def split: option.splits)
qed (use assms in simp_all)

lemma settled_fixed: "settled (regionRuntimes_index b rv) s h \<Longrightarrow> applyLayers_body b rv h s = s"
  by (cases rule: body_cases [of b rv h s]) (auto simp: settled_def)

lemma loop_settled_fixed:
  "\<forall>h\<in>set hs. settled (regionRuntimes_index b rv) s h \<Longrightarrow> applyLayers_loop b rv hs s = s"
  by (induction hs) (simp_all add: settled_fixed)

lemma loop_settles:
  assumes "\<forall>h\<in>set hs \<union> set ds. ref_allocated s h" "\<forall>h\<in>set ds. settled (regionRuntimes_index b rv) s h"
  shows "\<forall>h\<in>set hs \<union> set ds. settled (regionRuntimes_index b rv) (applyLayers_loop b rv hs s) h"
  using assms
proof (induction hs arbitrary: s ds)
  case Nil
  then show ?case by simp
next
  case (Cons x xs)
  let ?s = "applyLayers_body b rv x s"
  have "\<forall>h\<in>set xs \<union> set (x # ds). ref_allocated ?s h"
    using Cons.prems(1) by (auto intro: body_allocated)
  moreover have "\<forall>h\<in>set (x # ds). settled (regionRuntimes_index b rv) ?s h"
    using Cons.prems by (auto intro: body_settles body_keeps_settled)
  ultimately have "\<forall>h\<in>set xs \<union> set (x # ds). settled (regionRuntimes_index b rv) (applyLayers_loop b rv xs ?s) h"
    by (rule Cons.IH)
  then show ?case by simp
qed

section \<open>Claims about findHandlers\<close>

text \<open>
  Outside the names that \<^verbatim>\<open>Object.prototype\<close> provides, a runtime-name that is absent
  or is no key of \<^verbatim>\<open>runtimeLookup\<close> gives the category \<^verbatim>\<open>UNSUPPORTED\<close>, with the
  effective runtime-name recorded.
\<close>

lemma unknown_runtime_unsupported:
  assumes "(case fd_runtime (fun_objs s f) of None \<Rightarrow> dr | Some r \<Rightarrow> Some r) = eff"
    and "eff = None \<or>
         (\<exists>r. eff = Some r \<and> map_of runtimeLookup r = None \<and> r \<notin> set objectPrototype)"
  shows "findHandler s ex sv dr dn (name, f) =
           Some \<lparr>hi_name = name, hi_type = Enum UNSUPPORTED, hi_handler = f, hi_runtime = eff\<rparr>"
proof (cases eff)
  case None
  with assms(1) show ?thesis by (simp add: findHandler_def)
next
  case (Some r)
  with assms(2) have "map_of runtimeLookup r = None" and "r \<notin> set objectPrototype"
    by simp_all
  with no_own_key_lookup [of r] assms(1) Some show ?thesis
    by (simp add: findHandler_def)
qed

text \<open>
  C1. For every function whose effective runtime-name is undefined or not a key of the
  runtime-name table, the classifier emits a record of category Unsupported, keeps the
  function and records the raw runtime-name.

  The code misses this for the names that every object literal inherits. The function
  \<^verbatim>\<open>{handler: "myfile.handler", runtime: "constructor"}\<close> has a runtime-name that is no
  key of the table, but \<^verbatim>\<open>"constructor" in runtimeLookup\<close> holds,
  \<^verbatim>\<open>runtimeLookup["constructor"]\<close> is the inherited constructor, and that value, not
  \<^verbatim>\<open>RuntimeType.UNSUPPORTED\<close>, ends up in the record's \<^verbatim>\<open>type\<close>.
\<close>

theorem prototype_name_not_unsupported:
  "map_of runtimeLookup ''constructor'' = None \<and>
   findHandlers (ex_heap (ex_fd ''myfile.handler'' (Some ''constructor''))) (\<lambda>_. False)
     \<lparr>sv_functions = [(''func-a'', 0)], sv_plugins = None\<rparr> None None =
   [\<lparr>hi_name = ''func-a'', hi_type = ProtoMember ''constructor'', hi_handler = 0,
     hi_runtime = Some ''constructor''\<rparr>]"
  by (simp add: findHandlers_def findHandler_def List.map_filter_def ex_heap_def ex_fd_def
        in_runtimeLookup_def runtimeLookup_index_def runtimeLookup_def objectPrototype_def)

text \<open>
  C6. A function whose base category is \<^verbatim>\<open>NODE\<close> and whose handler reference has no dot
  is left out of the result: the result for the entries around it is the result for the
  entries before it followed by the result for the entries after it. \<^verbatim>\<open>findHandlers\<close>
  has no \<^verbatim>\<open>throw\<close> and no logging call, and is a total function to lists here.
\<close>

theorem malformed_node_handler_dropped:
  assumes "(case fd_runtime (fun_objs s f) of None \<Rightarrow> defaultRuntime | Some r \<Rightarrow> Some r) = Some r"
    and "map_of runtimeLookup r = Some NODE"
    and "CHR ''.'' \<notin> set (fd_handler (fun_objs s f))"
  shows "findHandlers s existsSync \<lparr>sv_functions = pre @ (name, f) # post, sv_plugins = pl\<rparr>
           defaultRuntime defaultNodeRuntime =
         findHandlers s existsSync \<lparr>sv_functions = pre, sv_plugins = pl\<rparr>
           defaultRuntime defaultNodeRuntime @
         findHandlers s existsSync \<lparr>sv_functions = post, sv_plugins = pl\<rparr>
           defaultRuntime defaultNodeRuntime"
proof -
  have "getHandlerPath s \<lparr>hi_name = name, hi_type = Enum NODE, hi_handler = f,
                           hi_runtime = Some r\<rparr> = None"
    using assms(3) by (simp add: getHandlerPath_None_iff)
  then have "findHandler s existsSync \<lparr>sv_functions = pre @ (name, f) # post, sv_plugins = pl\<rparr>
               defaultRuntime defaultNodeRuntime (name, f) = None"
    by (simp add: findHandler_node [OF assms(1,2)])
  then show ?thesis
    by (simp add: findHandlers_split)
qed

theorem malformed_node_handler_dropped_witness:
  "findHandlers (ex_heap (ex_fd ''myfile'' (Some ''nodejs10.x''))) (\<lambda>_. False)
     \<lparr>sv_functions = [] @ (''func-a'', 0) # [], sv_plugins = None\<rparr> None None =
   findHandlers (ex_heap (ex_fd ''myfile'' (Some ''nodejs10.x''))) (\<lambda>_. False)
     \<lparr>sv_functions = [], sv_plugins = None\<rparr> None None @
   findHandlers (ex_heap (ex_fd ''myfile'' (Some ''nodejs10.x''))) (\<lambda>_. False)
     \<lparr>sv_functions = [], sv_plugins = None\<rparr> None None"
  by (rule malformed_node_handler_dropped [where r = "''nodejs10.x''"])
     (simp_all add: ex_heap_def ex_fd_def runtimeLookup_def)

text \<open>
  C7. With no forced dialect, a \<^verbatim>\<open>NODE\<close> function whose handler reference is a module
  path, a dot and a method name, and whose module path has a sibling \<^verbatim>\<open>.ts\<close> file, is
  classified \<^verbatim>\<open>NODE_TS\<close>, whatever the \<^verbatim>\<open>.es.js\<close> and \<^verbatim>\<open>.mjs\<close> files and the plugin list
  are.
\<close>

theorem typescript_overrides_es6:
  assumes "(case fd_runtime (fun_objs s f) of None \<Rightarrow> defaultRuntime | Some r \<Rightarrow> Some r) = Some r"
    and "map_of runtimeLookup r = Some NODE"
    and "fd_handler (fun_objs s f) = modulePath @ ''.'' @ methodName"
    and "CHR ''.'' \<notin> set methodName"
    and "existsSync (''./'' @ modulePath @ ''.ts'')"
  shows "findHandlers s existsSync \<lparr>sv_functions = pre @ (name, f) # post, sv_plugins = pl\<rparr>
           defaultRuntime None =
         findHandlers s existsSync \<lparr>sv_functions = pre, sv_plugins = pl\<rparr> defaultRuntime None @
         \<lparr>hi_name = name, hi_type = Enum NODE_TS, hi_handler = f, hi_runtime = Some r\<rparr> #
         findHandlers s existsSync \<lparr>sv_functions = post, sv_plugins = pl\<rparr> defaultRuntime None"
proof -
  have "getHandlerPath s \<lparr>hi_name = name, hi_type = Enum NODE, hi_handler = f,
                           hi_runtime = Some r\<rparr> =
        Some \<lparr>hp_method = methodName, hp_filename = modulePath\<rparr>"
    using assms(3,4) by (intro getHandlerPath_parsed) simp_all
  with assms(5) show ?thesis
    by (simp add: findHandlers_split findHandler_node [OF assms(1,2)])
qed

theorem typescript_overrides_es6_witness:
  "findHandlers (ex_heap (ex_fd ''mylambda.handler'' (Some ''nodejs8.10'')))
     (\<lambda>p. p = ''./mylambda.ts'' \<or> p = ''./mylambda.es.js'')
     \<lparr>sv_functions = [] @ (''func-a'', 0) # [], sv_plugins = Some [''serverless-webpack'']\<rparr>
     None None =
   findHandlers (ex_heap (ex_fd ''mylambda.handler'' (Some ''nodejs8.10'')))
     (\<lambda>p. p = ''./mylambda.ts'' \<or> p = ''./mylambda.es.js'')
     \<lparr>sv_functions = [], sv_plugins = Some [''serverless-webpack'']\<rparr> None None @
   \<lparr>hi_name = ''func-a'', hi_type = Enum NODE_TS, hi_handler = 0,
     hi_runtime = Some ''nodejs8.10''\<rparr> #
   findHandlers (ex_heap (ex_fd ''mylambda.handler'' (Some ''nodejs8.10'')))
     (\<lambda>p. p = ''./mylambda.ts'' \<or> p = ''./mylambda.es.js'')
     \<lparr>sv_functions = [], sv_plugins = Some [''serverless-webpack'']\<rparr> None None"
  by (rule typescript_overrides_es6 [where modulePath = "''mylambda''" and methodName = "''handler''"])
     (simp_all add: ex_heap_def ex_fd_def runtimeLookup_def)

text \<open>
  C8. With no forced dialect and a plugin list that contains \<^verbatim>\<open>serverless-webpack\<close>, a
  \<^verbatim>\<open>NODE\<close> function whose handler reference is a module path, a dot and a method name is
  classified \<^verbatim>\<open>NODE_ES6\<close> when the module path has no sibling \<^verbatim>\<open>.ts\<close> file; no \<^verbatim>\<open>.es.js\<close>
  or \<^verbatim>\<open>.mjs\<close> file is needed.
\<close>

theorem webpack_plugin_gives_es6:
  assumes "(case fd_runtime (fun_objs s f) of None \<Rightarrow> defaultRuntime | Some r \<Rightarrow> Some r) = Some r"
    and "map_of runtimeLookup r = Some NODE"
    and "fd_handler (fun_objs s f) = modulePath @ ''.'' @ methodName"
    and "CHR ''.'' \<notin> set methodName"
    and "\<not> existsSync (''./'' @ modulePath @ ''.ts'')"
    and "plugins = Some pl"
    and "''serverless-webpack'' \<in> set pl"
  shows "findHandlers s existsSync \<lparr>sv_functions = pre @ (name, f) # post, sv_plugins = plugins\<rparr>
           defaultRuntime None =
         findHandlers s existsSync \<lparr>sv_functions = pre, sv_plugins = plugins\<rparr> defaultRuntime None @
         \<lparr>hi_name = name, hi_type = Enum NODE_ES6, hi_handler = f, hi_runtime = Some r\<rparr> #
         findHandlers s existsSync \<lparr>sv_functions = post, sv_plugins = plugins\<rparr> defaultRuntime None"
proof -
  have "getHandlerPath s \<lparr>hi_name = name, hi_type = Enum NODE, hi_handler = f,
                           hi_runtime = Some r\<rparr> =
        Some \<lparr>hp_method = methodName, hp_filename = modulePath\<rparr>"
    using assms(3,4) by (intro getHandlerPath_parsed) simp_all
  with assms(5-7) show ?thesis
    by (simp add: findHandlers_split findHandler_node [OF assms(1,2)] hasWebpackPlugin_iff)
qed

theorem webpack_plugin_gives_es6_witness:
  "findHandlers (ex_heap (ex_fd ''mylambda.handler'' (Some ''nodejs8.10'')))
     (\<lambda>p. p = ''./mylambda.js'' \<or> p = ''./other.ts'')
     \<lparr>sv_functions = [] @ (''func-a'', 0) # [],
       sv_plugins = Some [''serverless-plugin-datadog'', ''serverless-webpack'']\<rparr>
     (Some ''nodejs8.10'') None =
   findHandlers (ex_heap (ex_fd ''mylambda.handler'' (Some ''nodejs8.10'')))
     (\<lambda>p. p = ''./mylambda.js'' \<or> p = ''./other.ts'')
     \<lparr>sv_functions = [],
       sv_plugins = Some [''serverless-plugin-datadog'', ''serverless-webpack'']\<rparr>
     (Some ''nodejs8.10'') None @
   \<lparr>hi_name = ''func-a'', hi_type = Enum NODE_ES6, hi_handler = 0,
     hi_runtime = Some ''nodejs8.10''\<rparr> #
   findHandlers (ex_heap (ex_fd ''mylambda.handler'' (Some ''nodejs8.10'')))
     (\<lambda>p. p = ''./mylambda.js'' \<or> p = ''./other.ts'')
     \<lparr>sv_functions = [],
       sv_plugins = Some [''serverless-plugin-datadog'', ''serverless-webpack'']\<rparr>
     (Some ''nodejs8.10'') None"
  by (rule webpack_plugin_gives_es6
        [where modulePath = "''mylambda''" and methodName = "''handler''"
           and pl = "[''serverless-plugin-datadog'', ''serverless-webpack'']"])
     (simp_all add: ex_heap_def ex_fd_def runtimeLookup_def)

text \<open>
  C10. Only \<^verbatim>\<open>NODE\<close> functions can be dropped: a function whose effective runtime-name
  is absent, maps to \<^verbatim>\<open>PYTHON\<close>, or is no key of the table is kept in the result, at its
  place, with its name, its function definition and its effective runtime-name, whatever
  its handler reference looks like.
\<close>

theorem non_node_function_retained:
  assumes "(case fd_runtime (fun_objs s f) of None \<Rightarrow> defaultRuntime | Some r \<Rightarrow> Some r) = eff"
    and "eff = None \<or>
         (\<exists>r. eff = Some r \<and>
               (map_of runtimeLookup r = Some PYTHON \<or> map_of runtimeLookup r = None))"
  shows "\<exists>t. findHandlers s existsSync \<lparr>sv_functions = pre @ (name, f) # post, sv_plugins = pl\<rparr>
                defaultRuntime defaultNodeRuntime =
              findHandlers s existsSync \<lparr>sv_functions = pre, sv_plugins = pl\<rparr>
                defaultRuntime defaultNodeRuntime @
              \<lparr>hi_name = name, hi_type = t, hi_handler = f, hi_runtime = eff\<rparr> #
              findHandlers s existsSync \<lparr>sv_functions = post, sv_plugins = pl\<rparr>
                defaultRuntime defaultNodeRuntime"
proof -
  from assms(2)
  have "eff = None \<or> (\<exists>r. eff = Some r \<and> map_of runtimeLookup r \<noteq> Some NODE)"
    by auto
  from findHandler_not_node [OF assms(1) this]
  obtain t where
    "findHandler s existsSync \<lparr>sv_functions = pre @ (name, f) # post, sv_plugins = pl\<rparr>
       defaultRuntime defaultNodeRuntime (name, f) =
     Some \<lparr>hi_name = name, hi_type = t, hi_handler = f, hi_runtime = eff\<rparr>"
    by blast
  then show ?thesis
    by (simp add: findHandlers_split)
qed

theorem non_node_function_retained_witness:
  "\<exists>t. findHandlers (ex_heap (ex_fd ''myfile'' (Some ''python3.8''))) (\<lambda>_. False)
          \<lparr>sv_functions = [] @ (''func-g'', 0) # [], sv_plugins = None\<rparr> None None =
        findHandlers (ex_heap (ex_fd ''myfile'' (Some ''python3.8''))) (\<lambda>_. False)
          \<lparr>sv_functions = [], sv_plugins = None\<rparr> None None @
        \<lparr>hi_name = ''func-g'', hi_type = t, hi_handler = 0, hi_runtime = Some ''python3.8''\<rparr> #
        findHandlers (ex_heap (ex_fd ''myfile'' (Some ''python3.8''))) (\<lambda>_. False)
          \<lparr>sv_functions = [], sv_plugins = None\<rparr> None None"
  by (rule non_node_function_retained) (simp_all add: ex_heap_def ex_fd_def runtimeLookup_def)

section \<open>Claims about applyLayers\<close>

text \<open>An entry that a table defines itself reads as itself.\<close>

lemma own_region_index:
  "regions layers region = Some t \<Longrightarrow> regions_index layers region = Some (Table t)"
  by (simp add: regions_index_def)

lemma own_runtime_index:
  "t r = Some arn \<Longrightarrow> regionRuntimes_index b (Table t) r = Some (Layer arn)"
  by (simp add: regionRuntimes_index_def)

text \<open>
  C2. For a record that is not \<^verbatim>\<open>UNSUPPORTED\<close>, has a runtime-name, and has a layer
  identifier in the region's table, the pass that ends with this record leaves the
  function's layer list as it was before the record's turn (the empty list when the field
  was absent) with the identifier appended if it was not a member, and as it was
  otherwise; in that second case the whole store is as before the record's turn.
\<close>

theorem applyLayers_appends_unless_present:
  assumes "hi_type h \<noteq> Enum UNSUPPORTED"
    and "hi_runtime h = Some r"
    and "regions layers region = Some regionRuntimes"
    and "regionRuntimes r = Some arn"
    and "cur = layer_list (applyLayers builtins region pre layers s) (hi_handler h)"
  shows "layers_of (applyLayers builtins region (pre @ [h]) layers s) (hi_handler h) =
           Some (if Layer arn \<in> set cur then cur else cur @ [Layer arn]) \<and>
         (Layer arn \<in> set cur \<longrightarrow>
            applyLayers builtins region (pre @ [h]) layers s =
            applyLayers builtins region pre layers s)"
proof -
  let ?s = "applyLayers builtins region pre layers s"
  note reg = own_region_index [OF assms(3)]
  note arn = own_runtime_index [where t = regionRuntimes and b = builtins, OF assms(4)]
  have step: "applyLayers builtins region (pre @ [h]) layers s =
              applyLayers_body builtins (Table regionRuntimes) h ?s"
    by (simp add: applyLayers_append) (simp add: applyLayers_def reg)
  show ?thesis
  proof (cases "fd_layers (fun_objs ?s (hi_handler h))")
    case None
    with assms(5) have "cur = []"
      by (simp add: layer_list_def layers_of_def)
    with body_absent [OF assms(1,2) arn None] show ?thesis
      by (simp add: step layers_of_def)
  next
    case (Some a)
    with assms(5) have "cur = arr_objs ?s a"
      by (simp add: layer_list_def layers_of_def)
    with body_present [OF assms(1,2) arn Some] Some show ?thesis
      by (simp add: step layers_of_def)
  qed
qed

theorem applyLayers_appends_unless_present_witness:
  "layers_of (applyLayers no_builtins ''us-east-1'' ([] @ [ex_record]) (ex_layers ''node:2'')
                (ex_heap_layers [Layer ''node:1''])) (hi_handler ex_record) =
     Some [Layer ''node:1'', Layer ''node:2'']"
  using applyLayers_appends_unless_present
    [where h = ex_record and r = "''nodejs10.x''" and layers = "ex_layers ''node:2''"
       and region = "''us-east-1''" and regionRuntimes = "[''nodejs10.x'' \<mapsto> ''node:2'']"
       and arn = "''node:2''" and cur = "[Layer ''node:1'']" and pre = "[]"
       and s = "ex_heap_layers [Layer ''node:1'']" and builtins = no_builtins]
  by (simp add: ex_defs applyLayers_def layer_list_def layers_of_def regions_index_def)

text \<open>
  C3, as stated: after a merge pass no function's layer list contains duplicates. The
  pass does not remove duplicates that the list had before: from \<^verbatim>\<open>["node:1", "node:1"]\<close>
  it makes \<^verbatim>\<open>["node:1", "node:1", "node:2"]\<close>.
\<close>

theorem existing_duplicates_survive:
  "\<not> distinct (layer_list (applyLayers no_builtins ''us-east-1'' [ex_record] (ex_layers ''node:2'')
                   (ex_heap_layers [Layer ''node:1'', Layer ''node:1''])) 0)"
  by (simp add: ex_defs run_defs)

text \<open>
  C3, amended: a function's layer list that has no duplicates before a merge pass has
  none after it. This holds for every function definition in the store, whichever
  records and arrays share it.
\<close>

theorem applyLayers_adds_no_duplicate:
  assumes "distinct (layer_list s f)"
  shows "distinct (layer_list (applyLayers builtins region handlers layers s) f)"
  using assms by (simp add: applyLayers_def loop_distinct split: option.splits)

theorem applyLayers_adds_no_duplicate_witness:
  "distinct (layer_list (applyLayers no_builtins ''us-east-1'' [ex_record] (ex_layers ''node:1'')
               (ex_heap_layers [Layer ''node:1''])) 0)"
  by (rule applyLayers_adds_no_duplicate) (simp add: ex_defs layer_list_def layers_of_def)

text \<open>
  C4. \<^verbatim>\<open>applyLayers\<close> is idempotent: a second call with the same region, records and
  table leaves the store, and so every function's layer list, as the first call left it.
  The store is one in which the arrays of the records' function definitions are
  allocated.
\<close>

theorem applyLayers_idempotent:
  assumes "list_all (ref_allocated s) handlers"
  shows "applyLayers builtins region handlers layers
           (applyLayers builtins region handlers layers s) =
         applyLayers builtins region handlers layers s"
proof (cases "regions_index layers region")
  case None
  then show ?thesis by (simp add: applyLayers_def)
next
  case (Some rv)
  let ?rr = "regionRuntimes_index builtins rv"
  from assms have "\<forall>h\<in>set handlers \<union> set []. ref_allocated s h"
    by (simp add: list_all_iff)
  then have "\<forall>h\<in>set handlers \<union> set [].
               settled ?rr (applyLayers_loop builtins rv handlers s) h"
    by (rule loop_settles) simp
  then have "applyLayers_loop builtins rv handlers (applyLayers_loop builtins rv handlers s) =
             applyLayers_loop builtins rv handlers s"
    by (intro loop_settled_fixed) simp
  with Some show ?thesis by (simp add: applyLayers_def)
qed

theorem applyLayers_idempotent_witness:
  "applyLayers no_builtins ''us-east-1'' [ex_record] (ex_layers ''node:2'')
     (applyLayers no_builtins ''us-east-1'' [ex_record] (ex_layers ''node:2'')
        (ex_heap (ex_fd ''myfile.handler'' (Some ''nodejs10.x'')))) =
   applyLayers no_builtins ''us-east-1'' [ex_record] (ex_layers ''node:2'')
     (ex_heap (ex_fd ''myfile.handler'' (Some ''nodejs10.x'')))"
  by (rule applyLayers_idempotent) (simp add: ex_defs ref_allocated_def)

text \<open>
  A record is without effect when indexing the layer table with the region returns
  \<^verbatim>\<open>undefined\<close>, or the record has no runtime-name, or indexing the region's table with
  the runtime-name returns \<^verbatim>\<open>undefined\<close>, or the record's category is \<^verbatim>\<open>UNSUPPORTED\<close>: a
  pass is the pass without that record, and the pass over that record alone leaves the
  store unchanged.
\<close>

lemma undefined_lookup_is_noop:
  assumes "regions_index layers region = None \<or>
           hi_runtime h = None \<or>
           (\<exists>rv r. regions_index layers region = Some rv \<and>
                    hi_runtime h = Some r \<and> regionRuntimes_index builtins rv r = None) \<or>
           hi_type h = Enum UNSUPPORTED"
  shows "applyLayers builtins region (pre @ h # post) layers s =
           applyLayers builtins region (pre @ post) layers s \<and>
         applyLayers builtins region [h] layers s = s"
proof -
  have one: "applyLayers builtins region [h] layers s' = s'" for s'
  proof (cases "regions_index layers region")
    case None
    then show ?thesis by (simp add: applyLayers_def)
  next
    case (Some rv)
    with assms have "hi_type h = Enum UNSUPPORTED \<or> hi_runtime h = None \<or>
                     (\<exists>r. hi_runtime h = Some r \<and> regionRuntimes_index builtins rv r = None)"
      by auto
    from body_skip [OF this] Some show ?thesis
      by (simp add: applyLayers_def)
  qed
  have "applyLayers builtins region (pre @ [h] @ post) layers s =
        applyLayers builtins region (pre @ post) layers s"
    by (simp only: applyLayers_append one)
  with one show ?thesis by simp
qed

text \<open>
  C5. \<^verbatim>\<open>applyLayers\<close> leaves a function's layer list, or its absence, unchanged whenever
  the region has no entry in the layer table, or the record has no runtime-name, or the
  region's table has no entry for the runtime-name, or the record's category is
  \<^verbatim>\<open>UNSUPPORTED\<close>.

  The code misses this for the names that the tables inherit, by the reads
  \<^verbatim>\<open>layers.regions[region]\<close> and \<^verbatim>\<open>regionRuntimes[runtime]\<close>. The table of the tests,
  \<^verbatim>\<open>{regions: {"us-east-1": {"nodejs10.x": "node:1"}}}\<close>, has no entry for the
  runtime-name \<^verbatim>\<open>constructor\<close> and none for the region \<^verbatim>\<open>constructor\<close>. Yet the record
  that \<^verbatim>\<open>findHandlers\<close> makes of a function with the runtime-name \<^verbatim>\<open>constructor\<close> gets the
  inherited constructor pushed on a new layer list in the region \<^verbatim>\<open>us-east-1\<close>, and a
  \<^verbatim>\<open>NODE\<close> record with the runtime-name \<^verbatim>\<open>name\<close> gets the string \<^verbatim>\<open>"Object"\<close> in the region
  \<^verbatim>\<open>constructor\<close>.
\<close>

theorem inherited_entry_is_applied:
  "regions (ex_layers ''node:1'') ''us-east-1'' = Some [''nodejs10.x'' \<mapsto> ''node:1''] \<and>
   [''nodejs10.x'' \<mapsto> ''node:1''] ''constructor'' = None \<and>
   layers_of (ex_heap (ex_fd ''myfile.handler'' (Some ''constructor''))) 0 = None \<and>
   layers_of (applyLayers no_builtins ''us-east-1'' [ex_record_constructor] (ex_layers ''node:1'')
                (ex_heap (ex_fd ''myfile.handler'' (Some ''constructor'')))) 0 =
     Some [Member ''constructor''] \<and>
   regions (ex_layers ''node:1'') ''constructor'' = None \<and>
   layers_of (applyLayers ex_builtins ''constructor'' [ex_record_name] (ex_layers ''node:1'')
                (ex_heap (ex_fd ''myfile.handler'' (Some ''nodejs10.x'')))) 0 =
     Some [Layer ''Object'']"
  by (simp add: ex_defs run_defs)

section \<open>Claims about setEnvConfiguration\<close>

text \<open>
  C9. \<^verbatim>\<open>setEnvConfiguration\<close> only fills in absent keys: each of the five variables that
  the environment defines keeps its value, and every key outside the five reads after the
  call as it read before it.
\<close>

theorem setEnvConfiguration_frame:
  "(\<forall>k\<in>{apiKeyEnvVar, apiKeyKMSEnvVar, siteURLEnvVar, logLevelEnvVar, logForwardingEnvVar}.
      \<forall>v. (case provider_environment of None \<Rightarrow> Map.empty | Some e \<Rightarrow> e) k = Some v \<longrightarrow>
          setEnvConfiguration config provider_environment k = Some v) \<and>
   (\<forall>k. k \<notin> {apiKeyEnvVar, apiKeyKMSEnvVar, siteURLEnvVar, logLevelEnvVar, logForwardingEnvVar} \<longrightarrow>
        setEnvConfiguration config provider_environment k =
        (case provider_environment of None \<Rightarrow> Map.empty | Some e \<Rightarrow> e) k)"
  by (auto simp: setEnvConfiguration_def env_names Let_def split: option.splits)

theorem setEnvConfiguration_frame_witness:
  "setEnvConfiguration defaultConfiguration
     (Some [''DD_SITE'' \<mapsto> Str ''datadoghq.eu'', ''STAGE'' \<mapsto> Str ''dev'']) ''DD_SITE'' =
     Some (Str ''datadoghq.eu'') \<and>
   setEnvConfiguration defaultConfiguration
     (Some [''DD_SITE'' \<mapsto> Str ''datadoghq.eu'', ''STAGE'' \<mapsto> Str ''dev'']) ''STAGE'' =
     Some (Str ''dev'') \<and>
   setEnvConfiguration defaultConfiguration
     (Some [''DD_SITE'' \<mapsto> Str ''datadoghq.eu'', ''STAGE'' \<mapsto> Str ''dev'']) ''REGION'' = None"
  using setEnvConfiguration_frame
    [of "Some [''DD_SITE'' \<mapsto> Str ''datadoghq.eu'', ''STAGE'' \<mapsto> Str ''dev'']"
        defaultConfiguration]
  by (simp add: env_names)

end
